theory Spec2Isabelle
  imports Complex_Main
begin

section \<open>Geometry predicates of paths2openscad.py\<close>

text \<open>
  Coordinates are Python floats in the source; they are modelled as exact reals, so
  the comparisons below are those of a linear order (no NaN) and the one division of
  the ray casting loop is exact. A point is the two-element list \<open>[x, y]\<close>, a
  bounding box the four-element list \<open>[xmin, xmax, ymin, ymax]\<close>.
\<close>

type_synonym point = "real \<times> real"

record bbox =
  bxmin :: real
  bxmax :: real
  bymin :: real
  bymax :: real

text \<open>
  The exceptions the modelled code can raise. \<open>RecursionLimit\<close> is Python's
  RuntimeError for a call stack that is too deep; \<open>NoReturn\<close> is no exception: it
  marks a run in which \<open>subdivideCubicPath\<close> loops forever.
\<close>

datatype py_error =
    IndexError
  | TypeError
  | ValueError
  | NameError
  | KeyError
  | RecursionLimit
  | NoReturn

text \<open>\<open>pointInBBox(pt, bbox)\<close>, lines 173-183.\<close>

definition pointInBBox :: "point \<Rightarrow> bbox \<Rightarrow> bool" where
  "pointInBBox pt b =
     (if fst pt < bxmin b \<or> fst pt > bxmax b \<or> snd pt < bymin b \<or> snd pt > bymax b
      then False else True)"

text \<open>\<open>bboxInBBox(bbox1, bbox2)\<close>, lines 186-203.\<close>

definition bboxInBBox :: "bbox \<Rightarrow> bbox \<Rightarrow> bool" where
  "bboxInBBox b1 b2 =
     (if bxmin b1 < bxmin b2 \<or> bxmax b1 > bxmax b2 \<or> bymin b1 < bymin b2 \<or> bymax b1 > bymax b2
      then False else True)"

text \<open>
  The first loop of \<open>pointInPoly\<close> (lines 229-236): \<open>p1\<close> and \<open>p2\<close> start as
  \<open>poly[0]\<close> and \<open>poly[1]\<close> and are replaced by \<open>poly[i - 1]\<close> and \<open>poly[i]\<close> only
  when \<open>i \<noteq> 0\<close>. The list argument is the rest of \<open>range(len(poly))\<close>.
\<close>

definition on_horizontal :: "point \<Rightarrow> point \<Rightarrow> point \<Rightarrow> bool" where
  "on_horizontal p p1 p2 =
     (snd p = snd p1 \<and> snd p1 = snd p2 \<and>
      fst p > min (fst p1) (fst p2) \<and> fst p < max (fst p1) (fst p2))"

fun edge_loop :: "point \<Rightarrow> point list \<Rightarrow> point \<Rightarrow> point \<Rightarrow> nat list \<Rightarrow> bool" where
  "edge_loop p poly p1 p2 [] = False"
| "edge_loop p poly p1 p2 (i # is) =
     (let p1' = (if i \<noteq> 0 then poly ! (i - 1) else p1);
          p2' = (if i \<noteq> 0 then poly ! i else p2)
      in if on_horizontal p p1' p2' then True else edge_loop p poly p1' p2' is)"

text \<open>
  One pass of the ray casting loop (lines 242-253) for the edge from \<open>p1\<close> to \<open>p2\<close>:
  the new value of \<open>inside\<close>.
\<close>

definition crossing :: "point \<Rightarrow> point \<Rightarrow> point \<Rightarrow> bool \<Rightarrow> bool" where
  "crossing p p1 p2 inside =
     (if snd p > min (snd p1) (snd p2) then
        if snd p \<le> max (snd p1) (snd p2) then
          if fst p \<le> max (fst p1) (fst p2) then
            if snd p1 \<noteq> snd p2 then
              (let intersect = fst p1 + (snd p - snd p1) * (fst p2 - fst p1) / (snd p2 - snd p1)
               in if fst p \<le> intersect then \<not> inside else inside)
            else \<not> inside
          else inside
        else inside
      else inside)"

fun ray_loop :: "point \<Rightarrow> point list \<Rightarrow> point \<Rightarrow> bool \<Rightarrow> nat list \<Rightarrow> bool" where
  "ray_loop p poly p1 inside [] = inside"
| "ray_loop p poly p1 inside (i # is) =
     (let p2 = poly ! (i mod length poly)
      in ray_loop p poly p2 (crossing p p1 p2 inside) is)"

text \<open>
  \<open>pointInPoly(p, poly, bbox=None)\<close>, lines 206-255. \<open>poly[0]\<close> and \<open>poly[1]\<close> are read
  before the first loop, so a polygon of fewer than two vertices raises IndexError
  unless an earlier test has returned.
\<close>

definition pointInPoly :: "point option \<Rightarrow> point list option \<Rightarrow> bbox option \<Rightarrow> py_error + bool" where
  "pointInPoly po polyo bb =
     (case (po, polyo) of
        (Some p, Some poly) \<Rightarrow>
          if (case bb of Some b \<Rightarrow> \<not> pointInBBox p b | None \<Rightarrow> False) then Inr False
          else if p \<in> set poly then Inr True
          else if length poly < 2 then Inl IndexError
          else if edge_loop p poly (poly ! 0) (poly ! 1) [0 ..< length poly] then Inr True
          else Inr (ray_loop p poly (poly ! 0) False [0 ..< length poly + 1])
      | _ \<Rightarrow> Inr False)"

text \<open>
  \<open>polyInPoly(poly1, bbox1, poly2, bbox2)\<close>, lines 258-286. The loop over the vertices
  of \<open>poly1\<close> returns at the first vertex that is not inside; an exception of
  \<open>pointInPoly\<close> ends it as well. Beside the result the model records the points
  handed to \<open>pointInPoly\<close>, in the order of the calls.
\<close>

fun vertex_loop :: "point list \<Rightarrow> point list \<Rightarrow> bbox option \<Rightarrow> (py_error + bool) \<times> point list" where
  "vertex_loop [] poly2 bbox2 = (Inr True, [])"
| "vertex_loop (p # ps) poly2 bbox2 =
     (case pointInPoly (Some p) (Some poly2) bbox2 of
        Inl e \<Rightarrow> (Inl e, [p])
      | Inr False \<Rightarrow> (Inr False, [p])
      | Inr True \<Rightarrow> (let (r, tested) = vertex_loop ps poly2 bbox2 in (r, p # tested)))"

definition polyInPoly_run ::
  "point list \<Rightarrow> bbox option \<Rightarrow> point list \<Rightarrow> bbox option \<Rightarrow> (py_error + bool) \<times> point list" where
  "polyInPoly_run poly1 bbox1 poly2 bbox2 =
     (if (case (bbox1, bbox2) of (Some b1, Some b2) \<Rightarrow> \<not> bboxInBBox b1 b2 | _ \<Rightarrow> False)
      then (Inr False, [])
      else vertex_loop poly1 poly2 bbox2)"

definition polyInPoly :: "point list \<Rightarrow> bbox option \<Rightarrow> point list \<Rightarrow> bbox option \<Rightarrow> py_error + bool" where
  "polyInPoly poly1 bbox1 poly2 bbox2 = fst (polyInPoly_run poly1 bbox1 poly2 bbox2)"

definition polyInPoly_tests :: "point list \<Rightarrow> bbox option \<Rightarrow> point list \<Rightarrow> bbox option \<Rightarrow> point list" where
  "polyInPoly_tests poly1 bbox1 poly2 bbox2 = snd (polyInPoly_run poly1 bbox1 poly2 bbox2)"

definition mk_bbox :: "real \<Rightarrow> real \<Rightarrow> real \<Rightarrow> real \<Rightarrow> bbox" where
  "mk_bbox a b c d = \<lparr>bxmin = a, bxmax = b, bymin = c, bymax = d\<rparr>"

definition square :: "point list" where
  "square = [(0, 0), (2, 0), (2, 2), (0, 2)]"

definition notched :: "point list" where
  "notched = [(0, 0), (1, 1), (2, 0), (2, 2), (0, 2)]"

definition open_square :: "point list" where
  "open_square = [(0, 0), (0, 2), (2, 2), (2, 0)]"

section \<open>Regular expressions of the extrusion syntax\<close>

text \<open>
  The four patterns of lines 109-112 use character classes, concatenation,
  alternation, greedy and lazy repetition of a class, optional parts, one capturing
  group and the anchors \<open>^\<close> and \<open>$\<close>. Python's \<open>re\<close> is a backtracking matcher:
  \<open>rmatch\<close> lists the states a pattern can end in, in the order the backtracking tries
  them, so the head of the list is the match \<open>re\<close> reports. A state is the character
  before the position (None at the start of the string), the rest of the string and
  the text of group 1.
\<close>

datatype cset = In string | NotIn string

fun cmem :: "cset \<Rightarrow> char \<Rightarrow> bool" where
  "cmem (In cs) c = (c \<in> set cs)"
| "cmem (NotIn cs) c = (c \<notin> set cs)"

datatype re =
    Cls cset
  | Cat re re
  | Alt re re
  | Opt re
  | StarG cset
  | StarL cset
  | Grp re
  | Bol
  | Eol
  | Eps

type_synonym mstate = "char option \<times> string \<times> string option"

fun spans :: "cset \<Rightarrow> char option \<Rightarrow> string \<Rightarrow> (char option \<times> string) list" where
  "spans cs prev [] = [(prev, [])]"
| "spans cs prev (c # s) = (prev, c # s) # (if cmem cs c then spans cs (Some c) s else [])"

definition newline :: char where "newline = CHR 0x0A"

fun rmatch :: "bool \<Rightarrow> re \<Rightarrow> mstate \<Rightarrow> mstate list" where
  "rmatch ml (Cls cs) (prev, s, g) =
     (case s of [] \<Rightarrow> [] | c # r \<Rightarrow> if cmem cs c then [(Some c, r, g)] else [])"
| "rmatch ml (Cat a b) st = concat (map (rmatch ml b) (rmatch ml a st))"
| "rmatch ml (Alt a b) st = rmatch ml a st @ rmatch ml b st"
| "rmatch ml (Opt a) st = rmatch ml a st @ [st]"
| "rmatch ml (StarG cs) (prev, s, g) = rev (map (\<lambda>(p, r). (p, r, g)) (spans cs prev s))"
| "rmatch ml (StarL cs) (prev, s, g) = map (\<lambda>(p, r). (p, r, g)) (spans cs prev s)"
| "rmatch ml (Grp a) (prev, s, g) =
     map (\<lambda>(p, r, _). (p, r, Some (take (length s - length r) s))) (rmatch ml a (prev, s, g))"
| "rmatch ml Bol (prev, s, g) =
     (if prev = None \<or> (ml \<and> prev = Some newline) then [(prev, s, g)] else [])"
| "rmatch ml Eol (prev, s, g) =
     (if s = [] \<or> (if ml then hd s = newline else s = [newline]) then [(prev, s, g)] else [])"
| "rmatch ml Eps st = [st]"

text \<open>
  \<open>findall\<close> scans from left to right; a pattern with one group yields the group's
  text for every match; the scan goes on where the match ended (one character further
  after an empty match).
\<close>

fun findall_from :: "bool \<Rightarrow> re \<Rightarrow> char option \<Rightarrow> string \<Rightarrow> string list" where
  "findall_from ml r prev s =
     (case rmatch ml r (prev, s, None) of
        [] \<Rightarrow> (case s of [] \<Rightarrow> [] | c # cs \<Rightarrow> findall_from ml r (Some c) cs)
      | (p, rest, g) # _ \<Rightarrow>
          (case g of None \<Rightarrow> [] | Some t \<Rightarrow> t) #
          (if length rest < length s then findall_from ml r p rest
           else (case s of [] \<Rightarrow> [] | c # cs \<Rightarrow> findall_from ml r (Some c) cs)))"

definition findall :: "bool \<Rightarrow> re \<Rightarrow> string \<Rightarrow> string list" where
  "findall ml r s = findall_from ml r None s"

fun re_seq :: "re list \<Rightarrow> re" where
  "re_seq [] = Eps"
| "re_seq (r # rs) = Cat r (re_seq rs)"

definition re_lit :: "string \<Rightarrow> re" where
  "re_lit s = re_seq (map (\<lambda>c. Cls (In [c])) s)"

definition re_plus :: "cset \<Rightarrow> re" where
  "re_plus cs = Cat (Cls cs) (StarG cs)"

definition cs_digit :: cset where "cs_digit = In ''0123456789''"
definition cs_space :: cset where "cs_space = In [CHR '' '', CHR 0x09, CHR 0x0A, CHR 0x0D, CHR 0x0C, CHR 0x0B]"
definition cs_dot :: cset where "cs_dot = NotIn [CHR 0x0A]"

text \<open>Line 109: \<^verbatim>\<open>.*?_+([aA]?\d+(?:[_\.]\d+)?)_*mm$\<close>\<close>

definition RE_AUTO_HEIGHT_ID :: re where
  "RE_AUTO_HEIGHT_ID =
     re_seq [StarL cs_dot, re_plus (In ''_''),
          Grp (re_seq [Opt (Cls (In ''aA'')), re_plus cs_digit, Opt (re_seq [Cls (In ''_.''), re_plus cs_digit])]),
          StarG (In ''_''), re_lit ''mm'', Eol]"

text \<open>Line 110, MULTILINE: \<^verbatim>\<open>^(?:ht|[Hh]eight):\s*([aA]?\d+(?:\.\d+)?) ?mm$\<close>\<close>

definition RE_AUTO_HEIGHT_DESC :: re where
  "RE_AUTO_HEIGHT_DESC =
     re_seq [Bol, Alt (re_lit ''ht'') (re_seq [Cls (In ''Hh''), re_lit ''eight'']), re_lit '':'', StarG cs_space,
          Grp (re_seq [Opt (Cls (In ''aA'')), re_plus cs_digit, Opt (re_seq [re_lit ''.'', re_plus cs_digit])]),
          Opt (re_lit '' ''), re_lit ''mm'', Eol]"

text \<open>Line 111, MULTILINE: \<^verbatim>\<open>^(?:sc|[Ss]cale):\s*(\d+(?:\.\d+)?(?: ?, ?\d+(?:\.\d+)?)?) ?%$\<close>\<close>

definition RE_AUTO_SCALE_DESC :: re where
  "RE_AUTO_SCALE_DESC =
     re_seq [Bol, Alt (re_lit ''sc'') (re_seq [Cls (In ''Ss''), re_lit ''cale'']), re_lit '':'', StarG cs_space,
          Grp (re_seq [re_plus cs_digit, Opt (re_seq [re_lit ''.'', re_plus cs_digit]),
                    Opt (re_seq [Opt (re_lit '' ''), re_lit '','', Opt (re_lit '' ''), re_plus cs_digit,
                              Opt (re_seq [re_lit ''.'', re_plus cs_digit])])]),
          Opt (re_lit '' ''), re_lit ''%'', Eol]"

text \<open>Line 112, MULTILINE: \<^verbatim>\<open>^(?:[Rr]aise|[Oo]ffset):\s*(\d+(?:\.\d+)?) ?mm$\<close>\<close>

definition RE_AUTO_RAISE_DESC :: re where
  "RE_AUTO_RAISE_DESC =
     re_seq [Bol, Alt (re_seq [Cls (In ''Rr''), re_lit ''aise'']) (re_seq [Cls (In ''Oo''), re_lit ''ffset'']),
          re_lit '':'', StarG cs_space,
          Grp (re_seq [re_plus cs_digit, Opt (re_seq [re_lit ''.'', re_plus cs_digit])]),
          Opt (re_lit '' ''), re_lit ''mm'', Eol]"

section \<open>Extrusion values of an element\<close>

text \<open>
  An XML element as lxml presents it: its tag (a string, or a function object for a
  comment or a processing instruction), its attributes, its text and its children.
\<close>

datatype xtag = Tag string | NoTag

datatype xnode = XNode (xtag: xtag) (xattrs: "(string \<times> string) list") (xtext: "string option") (xkids: "xnode list")

definition nss :: "string \<Rightarrow> string" where
  "nss ns =
     (if ns = ''svg'' then ''http://www.w3.org/2000/svg''
      else if ns = ''sodipodi'' then ''http://sodipodi.sourceforge.net/DTD/sodipodi-0.dtd''
      else if ns = ''xlink'' then ''http://www.w3.org/1999/xlink''
      else [])"

definition addNS :: "string \<Rightarrow> string \<Rightarrow> string" where
  "addNS tag ns = ''{'' @ nss ns @ ''}'' @ tag"

definition get_attr :: "xnode \<Rightarrow> string \<Rightarrow> string \<Rightarrow> string" where
  "get_attr node name dflt = (case map_of (xattrs node) name of Some v \<Rightarrow> v | None \<Rightarrow> dflt)"

definition find_child :: "xnode \<Rightarrow> string \<Rightarrow> xnode option" where
  "find_child node tagname = find (\<lambda>c. xtag c = Tag tagname) (xkids node)"

definition is_group :: "xnode \<Rightarrow> bool" where
  "is_group node = (xtag node = Tag (addNS ''g'' ''svg'') \<or> xtag node = Tag ''g'')"

record extrusion =
  ex_height :: string
  ex_raise :: string
  ex_scale :: string
  ex_neg :: bool

definition DESC_TAGS :: "string list" where
  "DESC_TAGS = [''desc'', addNS ''desc'' ''svg'']"

text \<open>Lines 682-686: the identifier's height, underscores replaced by dots.\<close>

definition merge_id :: "extrusion \<Rightarrow> xnode \<Rightarrow> extrusion" where
  "merge_id ext node =
     (let rawid = get_attr node ''id'' [];
          height = findall False RE_AUTO_HEIGHT_ID rawid
      in if height \<noteq> []
         then ext\<lparr>ex_height := map (\<lambda>c. if c = CHR ''_'' then CHR ''.'' else c) (last height)\<rparr>
         else ext)"

text \<open>
  Lines 689-702, the body of the loop over \<open>DESC_TAGS\<close> for one tag name. An element
  without text has \<open>text = None\<close>, on which \<open>findall\<close> raises TypeError.
\<close>

definition merge_desc :: "xnode \<Rightarrow> string \<Rightarrow> extrusion \<Rightarrow> py_error + extrusion" where
  "merge_desc node tagname ext =
     (case find_child node tagname of
        None \<Rightarrow> Inr ext
      | Some desc_node \<Rightarrow>
          (case xtext desc_node of
             None \<Rightarrow> Inl TypeError
           | Some t \<Rightarrow>
               (let height = findall True RE_AUTO_HEIGHT_DESC t;
                    e1 = (if height \<noteq> [] then ext\<lparr>ex_height := last height\<rparr> else ext);
                    zscale = findall True RE_AUTO_SCALE_DESC t;
                    e2 = (if zscale \<noteq> []
                          then (if CHR '','' \<in> set (last zscale)
                                then e1\<lparr>ex_scale := ''['' @ last zscale @ '']''\<rparr>
                                else e1\<lparr>ex_scale := last zscale\<rparr>)
                          else e1);
                    zraise = findall True RE_AUTO_RAISE_DESC t;
                    e3 = (if zraise \<noteq> [] then e2\<lparr>ex_raise := last zraise\<rparr> else e2)
                in Inr e3)))"

fun merge_descs :: "xnode \<Rightarrow> string list \<Rightarrow> extrusion \<Rightarrow> py_error + extrusion" where
  "merge_descs node [] ext = Inr ext"
| "merge_descs node (tagname # tags) ext =
     (case merge_desc node tagname ext of
        Inl e \<Rightarrow> Inl e
      | Inr ext' \<Rightarrow> merge_descs node tags ext')"

text \<open>The values after the node's identifier and descriptions, before line 703.\<close>

definition own_values :: "extrusion \<Rightarrow> xnode \<Rightarrow> py_error + extrusion" where
  "own_values ext node = merge_descs node DESC_TAGS (merge_id ext node)"

text \<open>Lines 703-705; \<open>extrusion['height'][0]\<close> raises IndexError on an empty string.\<close>

definition is_anti :: "string \<Rightarrow> bool" where
  "is_anti h = (case h of [] \<Rightarrow> False | c # _ \<Rightarrow> c = CHR ''a'' \<or> c = CHR ''A'')"

definition strip_anti :: "extrusion \<Rightarrow> py_error + extrusion" where
  "strip_anti ext =
     (case ex_height ext of
        [] \<Rightarrow> Inl IndexError
      | c # cs \<Rightarrow>
          if c = CHR ''a'' \<or> c = CHR ''A'' then Inr (ext\<lparr>ex_neg := True, ex_height := cs\<rparr>)
          else Inr ext)"

text \<open>
  \<open>object_merge_extrusion_values(extrusion, node)\<close>, lines 671-706. The node comes with
  the chain of its ancestors, nearest first: \<open>node.getparent()\<close> is the head of the
  chain, and the recursion into a parent that is a group runs first.
\<close>

fun object_merge_extrusion_values :: "extrusion \<Rightarrow> xnode \<Rightarrow> xnode list \<Rightarrow> py_error + extrusion" where
  "object_merge_extrusion_values ext node [] =
     (case own_values ext node of Inl e \<Rightarrow> Inl e | Inr pre \<Rightarrow> strip_anti pre)"
| "object_merge_extrusion_values ext node (p # anc) =
     (case (if is_group p then object_merge_extrusion_values ext p anc else Inr ext) of
        Inl e \<Rightarrow> Inl e
      | Inr inh \<Rightarrow> (case own_values inh node of Inl e \<Rightarrow> Inl e | Inr pre \<Rightarrow> strip_anti pre))"

text \<open>What the recursion into the parent hands to the node (lines 677-679).\<close>

definition inherited :: "extrusion \<Rightarrow> xnode list \<Rightarrow> py_error + extrusion" where
  "inherited ext anc =
     (case anc of
        [] \<Rightarrow> Inr ext
      | p # rest \<Rightarrow> if is_group p then object_merge_extrusion_values ext p rest else Inr ext)"

text \<open>Line 819 of \<open>convertPath\<close>: the dictionary every element starts from.\<close>

definition extrusion0 :: extrusion where
  "extrusion0 = \<lparr>ex_height = ''h'', ex_raise = ''0'', ex_scale = ''100.0'', ex_neg = False\<rparr>"

definition svg_elem :: "string \<Rightarrow> (string \<times> string) list \<Rightarrow> xnode list \<Rightarrow> xnode" where
  "svg_elem name attrs kids = XNode (Tag (addNS name ''svg'')) attrs None kids"

definition desc_elem :: "string \<Rightarrow> xnode" where
  "desc_elem t = XNode (Tag (addNS ''desc'' ''svg'')) [] (Some t) []"












definition group_a5 :: xnode where
  "group_a5 = svg_elem ''g'' [(''id'', ''g_a5mm'')] []"

definition elem_p7 :: xnode where
  "elem_p7 = svg_elem ''path'' [(''id'', ''p_7mm'')] []"

section \<open>Flattening of cubic super-paths\<close>

text \<open>
  A cubic super-path is a list of nodes \<open>[handle_in, point, handle_out]\<close>; the
  segment \<open>i\<close> runs from node \<open>i - 1\<close> to node \<open>i\<close>. \<open>cspsubdiv.maxdist\<close> and
  \<open>bezmisc.beziersplitatt\<close> belong to Inkscape's library, not to this program: they
  are parameters of the model.
\<close>

type_synonym cspoint = "point \<times> point \<times> point"

type_synonym bezier = "point \<times> point \<times> point \<times> point"

definition cp_in :: "cspoint \<Rightarrow> point" where "cp_in c = fst c"

definition cp_pt :: "cspoint \<Rightarrow> point" where "cp_pt c = fst (snd c)"

definition cp_out :: "cspoint \<Rightarrow> point" where "cp_out c = snd (snd c)"

text \<open>Python's \<open>sp[i - 1]\<close>: the index \<open>-1\<close> is the last element.\<close>

definition prev_index :: "nat \<Rightarrow> nat \<Rightarrow> nat" where
  "prev_index i n = (if i = 0 then n - 1 else i - 1)"

text \<open>Lines 307-312: the four control points \<open>b\<close> of segment \<open>i\<close>.\<close>

definition segment :: "cspoint list \<Rightarrow> nat \<Rightarrow> bezier" where
  "segment sp i =
     (let a = sp ! prev_index i (length sp); b = sp ! i
      in (cp_pt a, cp_out a, cp_in b, cp_pt b))"

text \<open>
  Lines 319-323: the segment is split, the handles of its two end nodes are replaced
  and the new node is put in with the slice assignment \<open>sp[i:1] = [p]\<close>, which
  inserts before index \<open>i\<close> when \<open>i \<ge> 1\<close> and replaces \<open>sp[0]\<close> when \<open>i = 0\<close>.
\<close>

definition split_segment :: "(bezier \<Rightarrow> real \<Rightarrow> bezier \<times> bezier) \<Rightarrow> cspoint list \<Rightarrow> nat \<Rightarrow> cspoint list" where
  "split_segment beziersplitatt sp i =
     (let (one, two) = beziersplitatt (segment sp i) (1 / 2);
          (one0, one1, one2, one3) = one;
          (two0, two1, two2, two3) = two;
          k = prev_index i (length sp);
          sp1 = sp[k := (cp_in (sp ! k), cp_pt (sp ! k), one1)];
          sp2 = sp1[i := (two2, cp_pt (sp1 ! i), cp_out (sp1 ! i))];
          p = (one2, one3, two1)
      in if i = 0 then p # drop 1 sp2 else take i sp2 @ p # drop i sp2)"

text \<open>
  \<open>subdivideCubicPath(sp, flat, i=1)\<close>, lines 289-323. The two nested loops are one
  loop: a segment within the tolerance moves \<open>i\<close> on, any other segment is split
  and looked at again. Nothing bounds the number of splits, so the function is
  partial: None stands for a run that never returns. The result is the list the
  source has changed in place.
\<close>

partial_function (option) subdivideCubicPath ::
  "(bezier \<Rightarrow> real) \<Rightarrow> (bezier \<Rightarrow> real \<Rightarrow> bezier \<times> bezier) \<Rightarrow> cspoint list \<Rightarrow> real \<Rightarrow> nat \<Rightarrow> cspoint list option" where
  "subdivideCubicPath maxdist beziersplitatt sp flat i =
     (if i \<ge> length sp then Some sp
      else if maxdist (segment sp i) > flat
           then subdivideCubicPath maxdist beziersplitatt (split_segment beziersplitatt sp i) flat i
           else subdivideCubicPath maxdist beziersplitatt sp flat (i + 1))"







section \<open>Strings\<close>

definition bind_err :: "py_error + 'a \<Rightarrow> ('a \<Rightarrow> py_error + 'b) \<Rightarrow> py_error + 'b" where
  "bind_err m k = (case m of Inl e \<Rightarrow> Inl e | Inr x \<Rightarrow> k x)"

definition py_space :: "char \<Rightarrow> bool" where
  "py_space c = cmem cs_space c"

text \<open>\<open>s.strip()\<close>, \<open>s.split()\<close> and \<open>s.split(sep)\<close> for a one-character separator.\<close>

definition py_strip :: "string \<Rightarrow> string" where
  "py_strip s = rev (dropWhile py_space (rev (dropWhile py_space s)))"

fun split_on :: "(char \<Rightarrow> bool) \<Rightarrow> string \<Rightarrow> string \<Rightarrow> string list" where
  "split_on sep cur [] = [rev cur]"
| "split_on sep cur (c # s) = (if sep c then rev cur # split_on sep [] s else split_on sep (c # cur) s)"

definition py_split :: "char \<Rightarrow> string \<Rightarrow> string list" where
  "py_split sep s = split_on (\<lambda>c. c = sep) [] s"

definition py_split_ws :: "string \<Rightarrow> string list" where
  "py_split_ws s = filter (\<lambda>w. w \<noteq> []) (split_on py_space [] s)"

text \<open>\<open>str(n)\<close> for a natural number.\<close>

function str_nat :: "nat \<Rightarrow> string" where
  "str_nat n =
     (if n < 10 then [char_of (48 + n)]
      else str_nat (n div 10) @ [char_of (48 + n mod 10)])"
  by pat_completeness auto
termination
  by (relation "measure id") auto

declare str_nat.simps [simp del]

text \<open>\<open>re.sub('[^A-Za-z0-9_]+', '', rawid)\<close>, line 737.\<close>

definition ident_char :: "char \<Rightarrow> bool" where
  "ident_char c =
     (c \<in> set ''ABCDEFGHIJKLMNOPQRSTUVWXYZabcdefghijklmnopqrstuvwxyz0123456789_'')"

definition sanitize :: "string \<Rightarrow> string" where
  "sanitize rawid = filter ident_char rawid"

section \<open>The library, the options and the state\<close>

text \<open>
  What the program takes from Python and from Inkscape's modules, as parameters:
  \<open>float(s)\<close> (None for a ValueError), the formatting \<open>'%f' % x\<close>,
  \<open>simplepath.formatPath\<close>, \<open>simpletransform.parseTransform\<close> and
  \<open>composeTransform\<close> on matrices of an abstract type, the reading of path data
  into a transformed cubic super-path (\<open>simplepath.parsePath\<close>,
  \<open>cubicsuperpath.CubicSuperPath\<close> and \<open>simpletransform.applyTransformToPath\<close>,
  lines 582-594: an exception, or the list of its subpaths, empty when the data holds
  nothing), \<open>cspsubdiv.maxdist\<close> and \<open>bezmisc.beziersplitatt\<close>.
\<close>

record 'm lib =
  lib_py_float :: "string \<Rightarrow> real option"
  lib_fmt_f :: "real \<Rightarrow> string"
  lib_formatPath :: "(string \<times> real list) list \<Rightarrow> string"
  lib_parseTransform :: "string option \<Rightarrow> 'm"
  lib_composeTransform :: "'m \<Rightarrow> 'm \<Rightarrow> 'm"
  lib_cubic_superpath :: "string \<Rightarrow> 'm \<Rightarrow> py_error + cspoint list list"
  lib_maxdist :: "bezier \<Rightarrow> real"
  lib_beziersplitatt :: "bezier \<Rightarrow> real \<Rightarrow> bezier \<times> bezier"

record options =
  opt_smoothness :: real
  opt_height :: string
  opt_min_line_width :: real
  opt_line_fn :: int
  opt_force_line :: bool
  opt_parsedesc :: string

text \<open>
  A node of the document is known by its position, the child indices on the way
  from the root; \<open>self.paths\<close> is keyed by the node.
\<close>

type_synonym nref = "nat list"

type_synonym subpath = "point list \<times> bbox"

record call =
  c_raise :: string
  c_id :: string
  c_height :: string
  c_width_mm :: real
  c_scale :: string

datatype extrude = Linear | LinearPaths | Hull | HullPaths

text \<open>
  The output file is the sequence of its writes. A write is kept as what it
  declares, with numbers as numbers: the centre of a subpath, its point list, its
  list of index paths, the head and the end of a module, an extrusion block
  (\<open>msg_linear_extrude\<close>, \<open>msg_linear_extrude_by_paths\<close>, \<open>msg_extrude_by_hull\<close>,
  \<open>msg_extrude_by_hull_and_paths\<close>), the parameters at the head of the file and the
  module at its end that calls the others. A call is kept by the values put into it.
\<close>

datatype out =
    Center string nat point
  | Points string nat "point list"
  | Paths string nat "nat list list"
  | ModuleOpen string
  | Extrude extrude string nat
  | ModuleClose
  | Preamble string int real real
  | Newline
  | Assembly "call list" "call list"

record state =
  st_dpi :: real
  st_xmin :: real
  st_xmax :: real
  st_ymin :: real
  st_ymax :: real
  st_cx :: real
  st_cy :: real
  st_paths :: "((nref \<times> xnode) \<times> subpath list) list"
  st_call_list :: "call list"
  st_call_list_neg :: "call list"
  st_pathid :: nat
  st_f :: "out list"
  st_warnings :: "string list"
  st_errormsg :: "string list"

text \<open>
  The fields as \<open>__init__\<close> sets them (lines 426-457); \<open>getDocProps\<close> leaves the
  resolution at 90 or sets it to 96.
\<close>

definition init_state :: "real \<Rightarrow> state" where
  "init_state dpi =
     \<lparr>st_dpi = dpi,
      st_xmin = 10 ^ 70, st_xmax = - (10 ^ 70), st_ymin = 10 ^ 70, st_ymax = - (10 ^ 70),
      st_cx = 100 / 2, st_cy = 100 / 2,
      st_paths = [], st_call_list = [], st_call_list_neg = [], st_pathid = 0, st_f = [],
      st_warnings = [], st_errormsg = []\<rparr>"

text \<open>\<open>self.paths[node] = subpath_list\<close>: a key that is there keeps its place.\<close>

fun dict_set :: "('k \<times> 'v) list \<Rightarrow> 'k \<Rightarrow> 'v \<Rightarrow> ('k \<times> 'v) list" where
  "dict_set [] k v = [(k, v)]"
| "dict_set ((k', v') # d) k v = (if k' = k then (k, v) # d else (k', v') # dict_set d k v)"

section \<open>Vertices of a path\<close>

text \<open>
  Lines 621-635: the vertices after the first one, and the bounding box of the
  subpath, grown by \<open>if ... elif\<close> on each axis.
\<close>

fun track :: "cspoint list \<Rightarrow> point list \<Rightarrow> bbox \<Rightarrow> point list \<times> bbox" where
  "track [] vs b = (vs, b)"
| "track (csp # rest) vs b =
     (let pt = cp_pt csp;
          b1 = (if fst pt < bxmin b then b\<lparr>bxmin := fst pt\<rparr>
                else if fst pt > bxmax b then b\<lparr>bxmax := fst pt\<rparr> else b);
          b2 = (if snd pt < bymin b1 then b1\<lparr>bymin := snd pt\<rparr>
                else if snd pt > bymax b1 then b1\<lparr>bymax := snd pt\<rparr> else b1)
      in track rest (vs @ [pt]) b2)"

text \<open>Lines 640-647: the bounding box of the drawing.\<close>

definition grow :: "state \<Rightarrow> bbox \<Rightarrow> state" where
  "grow s b =
     (let s1 = (if bxmin b < st_xmin s then s\<lparr>st_xmin := bxmin b\<rparr> else s);
          s2 = (if bxmax b > st_xmax s1 then s1\<lparr>st_xmax := bxmax b\<rparr> else s1);
          s3 = (if bymin b < st_ymin s2 then s2\<lparr>st_ymin := bymin b\<rparr> else s2);
          s4 = (if bymax b > st_ymax s3 then s3\<lparr>st_ymax := bymax b\<rparr> else s3)
      in s4)"

text \<open>
  The loop of lines 600-647 over the subpaths of the cubic super-path. The subpath
  under construction is appended to \<open>subpath_list\<close> at the start of the next pass;
  \<open>pending\<close> is that subpath (None while \<open>subpath_vertices\<close> is empty). \<open>sp[0]\<close> on
  an empty subpath raises IndexError.
\<close>

fun subpath_loop ::
  "'m lib \<Rightarrow> real \<Rightarrow> cspoint list list \<Rightarrow> subpath list \<Rightarrow> subpath option \<Rightarrow> state
     \<Rightarrow> py_error + (subpath list \<times> subpath option \<times> state)" where
  "subpath_loop lib flat [] subpath_list pending s = Inr (subpath_list, pending, s)"
| "subpath_loop lib flat (sp # rest) subpath_list pending s =
     (let subpath_list1 = (case pending of Some sub \<Rightarrow> subpath_list @ [sub] | None \<Rightarrow> subpath_list)
      in case subdivideCubicPath (lib_maxdist lib) (lib_beziersplitatt lib) sp flat 1 of
           None \<Rightarrow> Inl NoReturn
         | Some [] \<Rightarrow> Inl IndexError
         | Some (c0 # cs) \<Rightarrow>
             (let first_point = cp_pt c0;
                  b0 = \<lparr>bxmin = fst first_point, bxmax = fst first_point,
                        bymin = snd first_point, bymax = snd first_point\<rparr>;
                  (vs, b) = track cs [first_point] b0
              in subpath_loop lib flat rest subpath_list1 (Some (vs, b)) (grow s b)))"

text \<open>\<open>getPathVertices(path, node, transform)\<close>, lines 568-654.\<close>

definition getPathVertices ::
  "'m lib \<Rightarrow> real \<Rightarrow> string \<Rightarrow> nref \<times> xnode \<Rightarrow> 'm \<Rightarrow> state \<Rightarrow> py_error + state" where
  "getPathVertices lib flat path node transform s =
     (if path = [] then Inr s
      else case lib_cubic_superpath lib path transform of
             Inl e \<Rightarrow> Inl e
           | Inr [] \<Rightarrow> Inr s
           | Inr p \<Rightarrow>
               (case subpath_loop lib flat p [] None s of
                  Inl e \<Rightarrow> Inl e
                | Inr (subpath_list, pending, s') \<Rightarrow>
                    (let subpath_list1 =
                           (case pending of Some sub \<Rightarrow> subpath_list @ [sub] | None \<Rightarrow> subpath_list)
                     in if length subpath_list1 > 0
                        then Inr (s'\<lparr>st_paths := dict_set (st_paths s') node subpath_list1\<rparr>)
                        else Inr s')))"

section \<open>The traversal of the document\<close>

definition is_tag :: "xnode \<Rightarrow> string \<Rightarrow> string \<Rightarrow> bool" where
  "is_tag node name ns = (xtag node = Tag (addNS name ns) \<or> xtag node = Tag name)"

text \<open>Lines 890-898: the visibility a node resolves to, and the two tests that skip it.\<close>

definition visibility_of :: "xnode \<Rightarrow> string \<Rightarrow> string" where
  "visibility_of node parent_visibility =
     (let v = get_attr node ''visibility'' parent_visibility
      in if v = ''inherit'' then parent_visibility else v)"

definition invisible :: "xnode \<Rightarrow> string \<Rightarrow> bool" where
  "invisible node parent_visibility =
     (let v = visibility_of node parent_visibility
      in if v = ''hidden'' \<or> v = ''collapse'' then True
         else get_attr node ''style'' [] = ''display:none'')"

text \<open>
  \<open>float(node.get(name, default))\<close>: TypeError for an attribute that is missing
  without a default, ValueError for a value that is no number.
\<close>

definition float_attr :: "'m lib \<Rightarrow> xnode \<Rightarrow> string \<Rightarrow> string option \<Rightarrow> py_error + real" where
  "float_attr lib node name dflt =
     (case (case map_of (xattrs node) name of Some v \<Rightarrow> Some v | None \<Rightarrow> dflt) of
        None \<Rightarrow> Inl TypeError
      | Some v \<Rightarrow> (case lib_py_float lib v of None \<Rightarrow> Inl ValueError | Some x \<Rightarrow> Inr x))"

definition kids_of :: "nref \<Rightarrow> xnode \<Rightarrow> (nref \<times> xnode) list" where
  "kids_of pos node = map (\<lambda>i. (pos @ [i], xkids node ! i)) [0 ..< length (xkids node)]"

text \<open>The nodes of a subtree in document order, each with its position.\<close>

fun all_nodes :: "nref \<Rightarrow> xnode \<Rightarrow> (nref \<times> xnode) list"
  and all_nodes_list :: "nref \<Rightarrow> nat \<Rightarrow> xnode list \<Rightarrow> (nref \<times> xnode) list" where
  "all_nodes pos (XNode t a x ks) = (pos, XNode t a x ks) # all_nodes_list pos 0 ks"
| "all_nodes_list pos i [] = []"
| "all_nodes_list pos i (k # ks) = all_nodes (pos @ [i]) k @ all_nodes_list pos (Suc i) ks"

text \<open>\<open>node.xpath('//*[@id="..."]')\<close>: every element of the document with that id.\<close>

definition xpath_id :: "xnode \<Rightarrow> string \<Rightarrow> (nref \<times> xnode) list" where
  "xpath_id doc ident =
     filter (\<lambda>(pos, n). xtag n \<noteq> NoTag \<and> map_of (xattrs n) ''id'' = Some ident) (all_nodes [] doc)"

text \<open>Lines 1096-1100: the texts of the elements below a text element.\<close>

definition subtree_texts :: "xnode \<Rightarrow> string list" where
  "subtree_texts node =
     concat (map (\<lambda>(pos, n). case xtext n of Some t \<Rightarrow> if xtag n \<noteq> NoTag then [t] else [] | None \<Rightarrow> [])
       (tl (all_nodes [] node)))"

fun join :: "string \<Rightarrow> string list \<Rightarrow> string" where
  "join sep [] = []"
| "join sep [w] = w"
| "join sep (w # ws) = w @ sep @ join sep ws"

text \<open>
  What the \<open>if ... elif\<close> chain of lines 904-1152 does with a visible node: nothing,
  a recursive call on a list of nodes with a matrix and a visibility, a call of
  \<open>getPathVertices\<close> with path data, an exception, or calls of \<open>inkex.errormsg\<close>
  together with the keys put into \<open>self.warnings\<close>.
\<close>

datatype 'm action =
    Pass
  | Recurse "(nref \<times> xnode) list" 'm string
  | Draw string
  | Raise py_error
  | Errormsg "string list" "string list"

definition with_float :: "py_error + real \<Rightarrow> (real \<Rightarrow> 'm action) \<Rightarrow> 'm action" where
  "with_float r k = (case r of Inl e \<Rightarrow> Raise e | Inr x \<Rightarrow> k x)"

definition image_warning :: string where
  "image_warning =
     ''Warning: unable to draw bitmap images; please convert them to line art first.  '' @
     ''Consider using the \"Trace bitmap...\" tool of the \"Path\" menu.  Mac users please '' @
     ''note that some X11 settings may cause cut-and-paste operations to paste in bitmap copies.''"

definition object_warning :: "xtag \<Rightarrow> string" where
  "object_warning t =
     ''Warning: unable to draw object <'' @ (case t of Tag name \<Rightarrow> name | NoTag \<Rightarrow> []) @
     ''>, please convert it to a path first.''"

definition text_warnings :: "string list \<Rightarrow> string list" where
  "text_warnings texts =
     [''Warning: text \"'' @ join [CHR 0x27, CHR '','', CHR '' '', CHR 0x27] texts @ ''\"'',
      ''Warning: unable to draw text, please convert it to a path first.'']"

definition polyline_d :: "string list \<Rightarrow> string" where
  "polyline_d pa =
     concat (map (\<lambda>i. if i = 0 then ''M '' @ pa ! i else '' L '' @ pa ! i) [0 ..< length pa])"

definition ellipse_d :: "'m lib \<Rightarrow> real \<Rightarrow> real \<Rightarrow> real \<Rightarrow> real \<Rightarrow> real \<Rightarrow> string" where
  "ellipse_d lib x1 x2 cy' rx ry =
     ''M '' @ lib_fmt_f lib x1 @ '','' @ lib_fmt_f lib cy' @ '' '' @
     ''A '' @ lib_fmt_f lib rx @ '','' @ lib_fmt_f lib ry @ '' '' @
     ''0 1 0 '' @ lib_fmt_f lib x2 @ '','' @ lib_fmt_f lib cy' @ '' '' @
     ''A '' @ lib_fmt_f lib rx @ '','' @ lib_fmt_f lib ry @ '' '' @
     ''0 1 0 '' @ lib_fmt_f lib x1 @ '','' @ lib_fmt_f lib cy'"

definition ignored_first :: "xnode \<Rightarrow> bool" where
  "ignored_first node =
     (is_tag node ''pattern'' ''svg'' \<or> is_tag node ''metadata'' ''svg'' \<or>
      is_tag node ''defs'' ''svg'' \<or> is_tag node ''desc'' ''svg'' \<or>
      is_tag node ''namedview'' ''sodipodi'' \<or> is_tag node ''eggbot'' ''svg'')"

definition ignored_last :: "xnode \<Rightarrow> bool" where
  "ignored_last node =
     (is_tag node ''pattern'' ''svg'' \<or> is_tag node ''radialGradient'' ''svg'' \<or>
      is_tag node ''linearGradient'' ''svg'' \<or> is_tag node ''style'' ''svg'' \<or>
      is_tag node ''cursor'' ''svg'' \<or> is_tag node ''color-profile'' ''svg'' \<or>
      xtag node = NoTag)"

definition dispatch ::
  "'m lib \<Rightarrow> xnode \<Rightarrow> string list \<Rightarrow> nref \<Rightarrow> xnode \<Rightarrow> 'm \<Rightarrow> string \<Rightarrow> 'm action" where
  "dispatch lib doc warnings pos node matNew v =
     (if is_tag node ''g'' ''svg'' then Recurse (kids_of pos node) matNew v
      else if is_tag node ''use'' ''svg'' then
        (case map_of (xattrs node) (addNS ''href'' ''xlink'') of
           None \<Rightarrow> Pass
         | Some refid \<Rightarrow>
             if refid = [] then Pass
             else (let refnode = xpath_id doc (tl refid)
                   in if refnode = [] then Pass
                      else with_float (float_attr lib node ''x'' (Some ''0'')) (\<lambda>x.
                           with_float (float_attr lib node ''y'' (Some ''0'')) (\<lambda>y.
                             if x \<noteq> 0 \<or> y \<noteq> 0 then Raise NameError
                             else Recurse refnode matNew (get_attr node ''visibility'' v)))))
      else if xtag node = Tag (addNS ''path'' ''svg'') then
        (case map_of (xattrs node) ''d'' of
           None \<Rightarrow> Pass
         | Some path_data \<Rightarrow> if path_data = [] then Pass else Draw path_data)
      else if is_tag node ''rect'' ''svg'' then
        with_float (float_attr lib node ''x'' None) (\<lambda>x.
        with_float (float_attr lib node ''y'' None) (\<lambda>y.
        with_float (float_attr lib node ''width'' (Some ''0'')) (\<lambda>w.
        with_float (float_attr lib node ''height'' (Some ''0'')) (\<lambda>h.
          Draw (lib_formatPath lib
            [(''M '', [x, y]), ('' l '', [w, 0]), ('' l '', [0, h]), ('' l '', [- w, 0]), ('' Z'', [])])))))
      else if is_tag node ''line'' ''svg'' then
        with_float (float_attr lib node ''x1'' None) (\<lambda>x1.
        with_float (float_attr lib node ''y1'' None) (\<lambda>y1.
        with_float (float_attr lib node ''x2'' None) (\<lambda>x2.
        with_float (float_attr lib node ''y2'' None) (\<lambda>y2.
          if x1 = 0 \<or> y1 = 0 \<or> x2 = 0 \<or> y2 = 0 then Pass
          else Draw (lib_formatPath lib [(''M '', [x1, y1]), ('' L '', [x2, y2])])))))
      else if is_tag node ''polyline'' ''svg'' then
        (let pl = py_strip (get_attr node ''points'' [])
         in if pl = [] then Pass else Draw (polyline_d (py_split_ws pl)))
      else if is_tag node ''polygon'' ''svg'' then
        (let pl = py_strip (get_attr node ''points'' [])
         in if pl = [] then Pass else Draw (polyline_d (py_split_ws pl) @ '' Z''))
      else if is_tag node ''ellipse'' ''svg'' \<or> is_tag node ''circle'' ''svg'' then
        with_float (if is_tag node ''ellipse'' ''svg'' then float_attr lib node ''rx'' (Some ''0'')
                    else float_attr lib node ''r'' (Some ''0'')) (\<lambda>rx.
        with_float (if is_tag node ''ellipse'' ''svg'' then float_attr lib node ''ry'' (Some ''0'')
                    else Inr rx) (\<lambda>ry.
          if rx = 0 \<or> ry = 0 then Pass
          else with_float (float_attr lib node ''cx'' (Some ''0'')) (\<lambda>cx'.
               with_float (float_attr lib node ''cy'' (Some ''0'')) (\<lambda>cy'.
                 Draw (ellipse_d lib (cx' - rx) (cx' + rx) cy' rx ry)))))
      else if ignored_first node then Pass
      else if is_tag node ''text'' ''svg'' then
        (let texts = subtree_texts node
         in if texts \<noteq> [] then Errormsg (text_warnings texts) [] else Pass)
      else if is_tag node ''title'' ''svg'' then Pass
      else if is_tag node ''image'' ''svg'' then
        (if ''image'' \<notin> set warnings then Errormsg [image_warning] [''image''] else Pass)
      else if ignored_last node then Pass
      else Errormsg [object_warning (xtag node)] [])"

text \<open>
  \<open>recursivelyTraverseSvg(aNodeList, matCurrent, parent_visibility)\<close>, lines 865-1152.
  The first argument bounds the depth of the recursion, as Python's recursion limit
  does: a \<open>use\<close> element can refer to an element that encloses it.
\<close>

fun recursivelyTraverseSvg ::
  "'m lib \<Rightarrow> real \<Rightarrow> xnode \<Rightarrow> nat \<Rightarrow> (nref \<times> xnode) list \<Rightarrow> 'm \<Rightarrow> string \<Rightarrow> state \<Rightarrow> py_error + state" where
  "recursivelyTraverseSvg lib flat doc 0 aNodeList matCurrent parent_visibility s = Inl RecursionLimit"
| "recursivelyTraverseSvg lib flat doc (Suc depth) [] matCurrent parent_visibility s = Inr s"
| "recursivelyTraverseSvg lib flat doc (Suc depth) ((pos, node) # rest) matCurrent parent_visibility s =
     (if invisible node parent_visibility
      then recursivelyTraverseSvg lib flat doc (Suc depth) rest matCurrent parent_visibility s
      else
        (let v = visibility_of node parent_visibility;
             matNew = lib_composeTransform lib matCurrent
                        (lib_parseTransform lib (map_of (xattrs node) ''transform''))
         in case dispatch lib doc (st_warnings s) pos node matNew v of
              Pass \<Rightarrow> recursivelyTraverseSvg lib flat doc (Suc depth) rest matCurrent parent_visibility s
            | Recurse nodes mat v' \<Rightarrow>
                (case recursivelyTraverseSvg lib flat doc depth nodes mat v' s of
                   Inl e \<Rightarrow> Inl e
                 | Inr s' \<Rightarrow>
                     recursivelyTraverseSvg lib flat doc (Suc depth) rest matCurrent parent_visibility s')
            | Draw path_data \<Rightarrow>
                (case getPathVertices lib flat path_data (pos, node) matNew s of
                   Inl e \<Rightarrow> Inl e
                 | Inr s' \<Rightarrow>
                     recursivelyTraverseSvg lib flat doc (Suc depth) rest matCurrent parent_visibility s')
            | Raise e \<Rightarrow> Inl e
            | Errormsg msgs keys \<Rightarrow>
                recursivelyTraverseSvg lib flat doc (Suc depth) rest matCurrent parent_visibility
                  (s\<lparr>st_errormsg := st_errormsg s @ msgs, st_warnings := st_warnings s @ keys\<rparr>)))"

section \<open>Lengths and styles\<close>

text \<open>\<open>parseLengthWithUnits(str, default_unit)\<close>, lines 146-170.\<close>

definition parseLengthWithUnits :: "'m lib \<Rightarrow> string \<Rightarrow> string \<Rightarrow> (real \<times> string) option" where
  "parseLengthWithUnits lib str default_unit =
     (let s = py_strip str;
          last2 = drop (length s - 2) s;
          last1 = drop (length s - 1) s;
          (u, s') =
            (if last2 \<in> set [''px'', ''pt'', ''pc'', ''mm'', ''cm'', ''in'', ''ft'']
             then (last2, take (length s - 2) s)
             else if last1 \<in> set [''m'', ''%''] then (last1, take (length s - 1) s)
             else (default_unit, s))
      in case lib_py_float lib s' of None \<Rightarrow> None | Some v \<Rightarrow> Some (v, u))"

text \<open>
  \<open>LengthWithUnit(strn, default_unit)\<close>, lines 476-502; the flag \<open>px_used\<close> it sets
  is read nowhere and is left out.
\<close>

definition LengthWithUnit :: "'m lib \<Rightarrow> real \<Rightarrow> string \<Rightarrow> string \<Rightarrow> real option" where
  "LengthWithUnit lib dpi strn default_unit =
     (case parseLengthWithUnits lib strn default_unit of
        None \<Rightarrow> None
      | Some (v, u) \<Rightarrow>
          if u = ''mm'' then Some (v * (dpi / 25.4))
          else if u = ''cm'' then Some (v * (dpi * 10 / 25.4))
          else if u = ''m'' then Some (v * (dpi * 1000 / 25.4))
          else if u = ''in'' then Some (v * dpi)
          else if u = ''ft'' then Some (v * 12 * dpi)
          else if u = ''pt'' then Some (v * (dpi / 72))
          else if u = ''pc'' then Some (v * (dpi / 6))
          else if u = ''px'' then Some v
          else None)"

text \<open>
  \<open>getPathStyle(node)\<close>, lines 656-667. An element that does not split into a key
  and a value leaves \<open>key\<close> and \<open>val\<close> as the pass before set them, and the
  assignment \<open>ret[key] = val\<close> fails when no pass has.
\<close>

fun style_loop :: "string list \<Rightarrow> (string \<times> string) option \<Rightarrow> (string \<times> string) list
    \<Rightarrow> py_error + (string \<times> string) list" where
  "style_loop [] kv ret = Inr ret"
| "style_loop (elem # rest) kv ret =
     (if elem = [] then style_loop rest kv ret
      else
        (let parts = py_split (CHR '':'') (py_strip elem);
             kv' = (if length parts = 2 then Some (parts ! 0, parts ! 1) else kv)
         in case kv' of
              None \<Rightarrow> Inl NameError
            | Some (key, val) \<Rightarrow> style_loop rest kv' (dict_set ret key val)))"

definition getPathStyle :: "xnode \<Rightarrow> py_error + (string \<times> string) list" where
  "getPathStyle node = style_loop (py_split (CHR '';'') (get_attr node ''style'' [])) None []"

definition dict_get :: "(string \<times> string) list \<Rightarrow> string \<Rightarrow> string \<Rightarrow> string" where
  "dict_get d k dflt = (case map_of d k of Some v \<Rightarrow> v | None \<Rightarrow> dflt)"

section \<open>Containment within one element\<close>

text \<open>Lines 714-728: every pair \<open>i < j\<close> is tested once, \<open>j\<close> in \<open>i\<close> first.\<close>

fun contain_row :: "subpath list \<Rightarrow> nat \<Rightarrow> nat list \<Rightarrow> nat list list \<times> nat list list
    \<Rightarrow> py_error + (nat list list \<times> nat list list)" where
  "contain_row path i [] cc = Inr cc"
| "contain_row path i (j # js) (contains, contained_by) =
     (case polyInPoly (fst (path ! j)) (Some (snd (path ! j))) (fst (path ! i)) (Some (snd (path ! i))) of
        Inl e \<Rightarrow> Inl e
      | Inr True \<Rightarrow>
          contain_row path i js
            (contains[i := contains ! i @ [j]], contained_by[j := contained_by ! j @ [i]])
      | Inr False \<Rightarrow>
          (case polyInPoly (fst (path ! i)) (Some (snd (path ! i))) (fst (path ! j)) (Some (snd (path ! j))) of
             Inl e \<Rightarrow> Inl e
           | Inr True \<Rightarrow>
               contain_row path i js
                 (contains[j := contains ! j @ [i]], contained_by[i := contained_by ! i @ [j]])
           | Inr False \<Rightarrow> contain_row path i js (contains, contained_by)))"

fun contain_rows :: "subpath list \<Rightarrow> nat list \<Rightarrow> nat list list \<times> nat list list
    \<Rightarrow> py_error + (nat list list \<times> nat list list)" where
  "contain_rows path [] cc = Inr cc"
| "contain_rows path (i # is) cc =
     (case contain_row path i [i + 1 ..< length path] cc of
        Inl e \<Rightarrow> Inl e
      | Inr cc' \<Rightarrow> contain_rows path is cc')"

definition containment :: "subpath list \<Rightarrow> py_error + (nat list list \<times> nat list list)" where
  "containment path =
     contain_rows path [0 ..< length path]
       (replicate (length path) [], replicate (length path) [])"

section \<open>The module of one element\<close>

definition shift :: "real \<Rightarrow> real \<Rightarrow> point \<Rightarrow> point" where
  "shift cx cy pt = (fst pt - cx, snd pt - cy)"

text \<open>
  Lines 795-802: the points of the subpaths in \<open>contains[i]\<close> are added to the point
  list, and for each of them a list of the indices of its points.
\<close>

fun nested_loop :: "subpath list \<Rightarrow> real \<Rightarrow> real \<Rightarrow> nat list \<Rightarrow> point list \<Rightarrow> nat list list \<Rightarrow> nat
    \<Rightarrow> point list \<times> nat list list" where
  "nested_loop path cx cy [] polypoints polypaths count = (polypoints, polypaths)"
| "nested_loop path cx cy (j # js) polypoints polypaths count =
     nested_loop path cx cy js
       (polypoints @ map (shift cx cy) (fst (path ! j)))
       (polypaths @ [[count ..< count + length (fst (path ! j))]])
       (count + length (fst (path ! j)))"

text \<open>Lines 759-810: the declarations of the subpaths no other subpath contains.\<close>

fun points_loop :: "string \<Rightarrow> real \<Rightarrow> real \<Rightarrow> subpath list \<Rightarrow> nat list list \<Rightarrow> nat list list
    \<Rightarrow> nat list \<Rightarrow> nat \<Rightarrow> out list" where
  "points_loop ident cx cy path contains contained_by [] prefix = []"
| "points_loop ident cx cy path contains contained_by (i # is) prefix =
     (if contained_by ! i \<noteq> [] then points_loop ident cx cy path contains contained_by is prefix
      else
        (let subpath = fst (path ! i);
             bbox = snd (path ! i);
             polycenter = Center ident prefix
               ((bxmin bbox + bxmax bbox) * (1 / 2) - cx, (bymin bbox + bymax bbox) * (1 / 2) - cy)
         in if contains ! i = []
            then [polycenter, Points ident prefix (map (shift cx cy) subpath)]
                 @ points_loop ident cx cy path contains contained_by is (prefix + 1)
            else
              (let (polypoints, polypaths) =
                     nested_loop path cx cy (contains ! i) (map (shift cx cy) subpath)
                       [[0 ..< length subpath]] (length subpath)
               in [polycenter, Points ident prefix polypoints, Paths ident prefix polypaths]
                  @ points_loop ident cx cy path contains contained_by is (prefix + 1))))"

text \<open>Lines 831-860: one extrusion block for each of the same subpaths.\<close>

fun blocks_loop :: "string \<Rightarrow> bool \<Rightarrow> bool \<Rightarrow> nat list list \<Rightarrow> nat list list \<Rightarrow> nat list \<Rightarrow> nat
    \<Rightarrow> out list" where
  "blocks_loop ident filled force contains contained_by [] prefix = []"
| "blocks_loop ident filled force contains contained_by (i # is) prefix =
     (if contained_by ! i \<noteq> [] then blocks_loop ident filled force contains contained_by is prefix
      else
        (let poly =
               (if filled \<and> \<not> force
                then (if contains ! i = [] then Linear else LinearPaths)
                else (if contains ! i = [] then Hull else HullPaths))
         in Extrude poly ident prefix
            # blocks_loop ident filled force contains contained_by is (prefix + 1)))"

text \<open>The ancestors of the node at a position, nearest first.\<close>

fun nodes_above :: "xnode \<Rightarrow> nat list \<Rightarrow> xnode list" where
  "nodes_above n [] = []"
| "nodes_above n (i # is) =
     n # (if i < length (xkids n) then nodes_above (xkids n ! i) is else [])"

definition ancestors_of :: "xnode \<Rightarrow> nref \<Rightarrow> xnode list" where
  "ancestors_of doc pos = rev (nodes_above doc pos)"

definition ignored_message :: "string \<Rightarrow> string" where
  "ignored_message rawid = ''WARNING: '' @ rawid @ '' has fill:none and stroke:none, object ignored.''"

text \<open>
  Lines 757-863 of \<open>convertPath\<close>: the declarations, the head of the module, the
  call put on one of the two call lists, the extrusion blocks, the end of the module.
\<close>

definition write_module ::
  "options \<Rightarrow> xnode \<Rightarrow> nref \<times> xnode \<Rightarrow> subpath list \<Rightarrow> nat list list \<Rightarrow> nat list list
     \<Rightarrow> string \<Rightarrow> bool \<Rightarrow> real \<Rightarrow> state \<Rightarrow> py_error + state" where
  "write_module opts doc key path contains contained_by ident filled stroke_width_mm s1 =
     (let s2 = s1\<lparr>st_f := st_f s1
                 @ points_loop ident (st_cx s1) (st_cy s1) path contains contained_by
                     [0 ..< length path] 0
                 @ [ModuleOpen ident]\<rparr>
      in bind_err
           (if opt_parsedesc opts = ''true''
            then object_merge_extrusion_values extrusion0 (snd key) (ancestors_of doc (fst key))
            else Inr extrusion0)
           (\<lambda>extrusion.
              let call_item =
                    \<lparr>c_raise = ex_raise extrusion, c_id = ident, c_height = ex_height extrusion,
                     c_width_mm = stroke_width_mm, c_scale = ex_scale extrusion\<rparr>;
                  s3 = (if ex_neg extrusion
                        then s2\<lparr>st_call_list_neg := st_call_list_neg s2 @ [call_item]\<rparr>
                        else s2\<lparr>st_call_list := st_call_list s2 @ [call_item]\<rparr>)
              in Inr (s3\<lparr>st_f := st_f s3
                       @ blocks_loop ident filled (opt_force_line opts) contains contained_by
                           [0 ..< length path] 0
                       @ [ModuleClose]\<rparr>)))"

text \<open>
  \<open>convertPath(node)\<close>, lines 669-863: the containment of the subpaths, the name
  of the module, the style; an element with neither fill nor stroke is reported and
  left out.
\<close>

definition convertPath ::
  "'m lib \<Rightarrow> options \<Rightarrow> xnode \<Rightarrow> nref \<times> xnode \<Rightarrow> state \<Rightarrow> py_error + state" where
  "convertPath lib opts doc key s =
     (case map_of (st_paths s) key of
        None \<Rightarrow> Inl KeyError
      | Some path \<Rightarrow>
          if path = [] then Inr s
          else
            bind_err (containment path) (\<lambda>(contains, contained_by).
              let rawid0 = get_attr (snd key) ''id'' [];
                  ident = (if rawid0 = [] then str_nat (st_pathid s) @ ''x'' else sanitize rawid0);
                  rawid = (if rawid0 = [] then ident else rawid0);
                  s1 = (if rawid0 = [] then s\<lparr>st_pathid := st_pathid s + 1\<rparr> else s)
              in bind_err (getPathStyle (snd key)) (\<lambda>style.
                   case LengthWithUnit lib (st_dpi s1) (dict_get style ''stroke-width'' ''1'') ''mm'' of
                     None \<Rightarrow> Inl TypeError
                   | Some stroke_width \<Rightarrow>
                       let stroke_width_mm = stroke_width * 25.4 / st_dpi s1;
                           filled = (dict_get style ''fill'' ''#FFF'' \<noteq> ''none'')
                       in if \<not> filled \<and> dict_get style ''stroke'' ''none'' = ''none''
                          then Inr (s1\<lparr>st_errormsg := st_errormsg s1 @ [ignored_message rawid]\<rparr>)
                          else write_module opts doc key path contains contained_by ident filled
                                 stroke_width_mm s1)))"

section \<open>The whole run\<close>







section \<open>A small document to run the program on\<close>

text \<open>
  A library for the examples: path data name the cubic super-path they stand for,
  every segment counts as flat, matrices carry nothing, and \<open>float\<close> reads \<open>0\<close> and
  \<open>1\<close>. A polygon drawn with straight lines has its handles on its nodes.
\<close>

definition line_csp :: "point list \<Rightarrow> cspoint list" where
  "line_csp ps = map (\<lambda>p. (p, p, p)) ps"


definition demo_opts :: options where
  "demo_opts =
     \<lparr>opt_smoothness = 1 / 5, opt_height = ''5'', opt_min_line_width = 1, opt_line_fn = 4,
      opt_force_line = False, opt_parsedesc = ''true''\<rparr>"






definition flow_root :: xnode where
  "flow_root = svg_elem ''flowRoot'' [] []"

definition text_elem :: xnode where
  "text_elem = svg_elem ''text'' [] [XNode (Tag (addNS ''tspan'' ''svg'')) [] (Some ''A'') []]"

definition image_elem :: xnode where
  "image_elem = svg_elem ''image'' [] []"


section \<open>Properties of the state and of the output, to state the theorems with\<close>


text \<open>The vertices kept in \<open>self.paths\<close>.\<close>

definition stored_points :: "state \<Rightarrow> point set" where
  "stored_points s = (\<Union>entry \<in> set (st_paths s). \<Union>sub \<in> set (snd entry). set (fst sub))"

definition in_drawing :: "state \<Rightarrow> point \<Rightarrow> bool" where
  "in_drawing s p = (st_xmin s \<le> fst p \<and> fst p \<le> st_xmax s \<and> st_ymin s \<le> snd p \<and> snd p \<le> st_ymax s)"

text \<open>
  The text of a module in closed form, to compare with what the loops of
  \<open>convertPath\<close> write. The subpaths no other subpath contains, in the order of
  the loops:
\<close>

definition top_level :: "nat list list \<Rightarrow> nat \<Rightarrow> nat list" where
  "top_level contained_by n = filter (\<lambda>i. contained_by ! i = []) [0 ..< n]"

text \<open>The index lists of point lists of the given lengths, laid end to end.\<close>

fun index_runs :: "nat \<Rightarrow> nat list \<Rightarrow> nat list list" where
  "index_runs count [] = []"
| "index_runs count (n # ns) = [count ..< count + n] # index_runs (count + n) ns"

text \<open>The vertices of subpath \<open>i\<close>, then those of the subpaths in \<open>contains[i]\<close>.\<close>

definition folded :: "subpath list \<Rightarrow> nat list list \<Rightarrow> nat \<Rightarrow> point list" where
  "folded path contains i = concat (map (\<lambda>j. fst (path ! j)) (i # contains ! i))"

text \<open>The declarations and the extrusion block of the \<open>k\<close>-th of these subpaths, subpath \<open>i\<close>.\<close>

definition declarations ::
  "string \<Rightarrow> real \<Rightarrow> real \<Rightarrow> subpath list \<Rightarrow> nat list list \<Rightarrow> nat \<times> nat \<Rightarrow> out list" where
  "declarations ident cx cy path contains ki =
     (let k = fst ki; i = snd ki; bbox = snd (path ! i);
          center = Center ident k
            ((bxmin bbox + bxmax bbox) * (1 / 2) - cx, (bymin bbox + bymax bbox) * (1 / 2) - cy);
          points = Points ident k (map (shift cx cy) (folded path contains i))
      in if contains ! i = [] then [center, points]
         else [center, points,
               Paths ident k (index_runs 0 (map (\<lambda>j. length (fst (path ! j))) (i # contains ! i)))])"

definition block :: "string \<Rightarrow> bool \<Rightarrow> bool \<Rightarrow> nat list list \<Rightarrow> nat \<times> nat \<Rightarrow> out" where
  "block ident filled force contains ki =
     Extrude (if filled \<and> \<not> force
              then (if contains ! snd ki = [] then Linear else LinearPaths)
              else (if contains ! snd ki = [] then Hull else HullPaths))
       ident (fst ki)"

definition module_text ::
  "string \<Rightarrow> real \<Rightarrow> real \<Rightarrow> bool \<Rightarrow> bool \<Rightarrow> subpath list \<Rightarrow> nat list list \<Rightarrow> nat list list
     \<Rightarrow> out list" where
  "module_text ident cx cy filled force path contains contained_by =
     (let tops = enumerate 0 (top_level contained_by (length path))
      in concat (map (declarations ident cx cy path contains) tops)
         @ [ModuleOpen ident]
         @ map (block ident filled force contains) tops
         @ [ModuleClose])"

text \<open>
  \<open>contains\<close> and \<open>contained_by\<close> are two views of one relation on the indices of
  the subpaths.
\<close>

definition dual :: "nat \<Rightarrow> nat list list \<times> nat list list \<Rightarrow> bool" where
  "dual n cc =
     (length (fst cc) = n \<and> length (snd cc) = n \<and>
      (\<forall>i<n. \<forall>j<n. (j \<in> set (fst cc ! i)) = (i \<in> set (snd cc ! j))) \<and>
      (\<forall>i<n. \<forall>j \<in> set (fst cc ! i). j < n) \<and>
      (\<forall>j<n. \<forall>i \<in> set (snd cc ! j). i < n))"

section \<open>An element of three subpaths\<close>

text \<open>
  A dart, a triangle with its corners in the dart that covers the notch of the dart,
  and a small triangle in the notch: inside the second, outside the first.
\<close>

definition dart :: "point list" where
  "dart = [(0, 0), (40, 20), (80, 0), (40, 80), (0, 0)]"

definition inner :: "point list" where
  "inner = [(10, 10), (70, 10), (40, 70), (10, 10)]"

definition speck :: "point list" where
  "speck = [(38, 12), (42, 12), (40, 16), (38, 12)]"

definition nest3 :: "subpath list" where
  "nest3 = [(dart, mk_bbox 0 80 0 80), (inner, mk_bbox 10 70 10 70), (speck, mk_bbox 38 42 12 16)]"

definition shapes3 :: "string \<Rightarrow> cspoint list list" where
  "shapes3 d = (if d = ''N'' then [line_csp dart, line_csp inner, line_csp speck] else [])"

definition nest_path :: xnode where
  "nest_path = svg_elem ''path'' [(''id'', ''n''), (''d'', ''N'')] []"

definition nest_doc :: xnode where
  "nest_doc = svg_elem ''svg'' [] [nest_path]"

definition plain_opts :: options where
  "plain_opts = demo_opts\<lparr>opt_parsedesc := ''false''\<rparr>"

definition nest_state :: state where
  "nest_state =
     (init_state 90)\<lparr>st_xmin := 0, st_xmax := 80, st_ymin := 0, st_ymax := 80,
                      st_paths := [(([0], nest_path), nest3)]\<rparr>"

section \<open>Containment of polygons\<close>

lemmas geometry_eval = pointInPoly_def on_horizontal_def crossing_def upt_rec mk_bbox_def
  pointInBBox_def polyInPoly_def polyInPoly_run_def polyInPoly_tests_def bboxInBBox_def

lemma vertex_loop_True:
  "fst (vertex_loop ps poly2 bb) = Inr True \<longleftrightarrow>
     (\<forall>p \<in> set ps. pointInPoly (Some p) (Some poly2) bb = Inr True)"
proof (induction ps)
  case Nil
  show ?case by simp
next
  case (Cons p ps)
  show ?case
  proof (cases "pointInPoly (Some p) (Some poly2) bb")
    case (Inl e)
    then show ?thesis by simp
  next
    case (Inr b)
    with Cons show ?thesis by (cases b) (simp_all add: split_beta)
  qed
qed

lemma bboxInBBox_iff:
  "bboxInBBox b1 b2 \<longleftrightarrow>
     bxmin b2 \<le> bxmin b1 \<and> bxmax b1 \<le> bxmax b2 \<and> bymin b2 \<le> bymin b1 \<and> bymax b1 \<le> bymax b2"
  by (auto simp: bboxInBBox_def)

text \<open>
  C1. With both bounding boxes supplied, \<open>polyInPoly\<close> returns True exactly when
  \<open>bbox1\<close> lies within \<open>bbox2\<close> (non-strictly on all four bounds) and
  \<open>pointInPoly\<close> returns True for every vertex of \<open>poly1\<close>; when the bounding-box
  check fails the result is False and \<open>pointInPoly\<close> is not called at all.
\<close>

theorem polyInPoly_spec:
  "(polyInPoly poly1 (Some b1) poly2 (Some b2) = Inr True \<longleftrightarrow>
      bboxInBBox b1 b2 \<and>
      (\<forall>p \<in> set poly1. pointInPoly (Some p) (Some poly2) (Some b2) = Inr True))
   \<and> (bboxInBBox b1 b2 \<longleftrightarrow>
      bxmin b2 \<le> bxmin b1 \<and> bxmax b1 \<le> bxmax b2 \<and> bymin b2 \<le> bymin b1 \<and> bymax b1 \<le> bymax b2)
   \<and> (\<not> bboxInBBox b1 b2 \<longrightarrow>
      polyInPoly poly1 (Some b1) poly2 (Some b2) = Inr False \<and>
      polyInPoly_tests poly1 (Some b1) poly2 (Some b2) = [])"
proof -
  have 1: "polyInPoly poly1 (Some b1) poly2 (Some b2) = Inr True \<longleftrightarrow>
      bboxInBBox b1 b2 \<and>
      (\<forall>p \<in> set poly1. pointInPoly (Some p) (Some poly2) (Some b2) = Inr True)"
    by (cases "bboxInBBox b1 b2") (simp_all add: polyInPoly_def polyInPoly_run_def vertex_loop_True)
  have 3: "\<not> bboxInBBox b1 b2 \<longrightarrow>
      polyInPoly poly1 (Some b1) poly2 (Some b2) = Inr False \<and>
      polyInPoly_tests poly1 (Some b1) poly2 (Some b2) = []"
    by (simp add: polyInPoly_def polyInPoly_tests_def polyInPoly_run_def)
  from 1 3 bboxInBBox_iff [of b1 b2] show ?thesis by blast
qed

theorem polyInPoly_spec_witness:
  "polyInPoly [(1, 1)] (Some (mk_bbox 1 1 1 1)) square (Some (mk_bbox 0 2 0 2)) = Inr True
   \<and> bboxInBBox (mk_bbox 1 1 1 1) (mk_bbox 0 2 0 2)
   \<and> pointInPoly (Some (1, 1)) (Some square) (Some (mk_bbox 0 2 0 2)) = Inr True
   \<and> \<not> bboxInBBox (mk_bbox 0 3 0 2) (mk_bbox 0 2 0 2)
   \<and> polyInPoly [(0, 0), (3, 2)] (Some (mk_bbox 0 3 0 2)) square (Some (mk_bbox 0 2 0 2)) = Inr False
   \<and> polyInPoly_tests [(0, 0), (3, 2)] (Some (mk_bbox 0 3 0 2)) square (Some (mk_bbox 0 2 0 2)) = []"
  using polyInPoly_spec [of "[(1, 1)]" "mk_bbox 1 1 1 1" square "mk_bbox 0 2 0 2"]
    polyInPoly_spec [of "[(0, 0), (3, 2)]" "mk_bbox 0 3 0 2" square "mk_bbox 0 2 0 2"]
  by (simp add: geometry_eval square_def)

text \<open>
  C8, as the claim states it, fails: the square and the square with a notch cut to
  its centre are different polygons with the same bounding box, every vertex of each
  is a vertex of the other or lies inside it, and \<open>polyInPoly\<close> reports each as
  enclosed by the other.
\<close>

theorem polyInPoly_antisym_counterexample:
  "notched \<noteq> square
   \<and> polyInPoly notched (Some (mk_bbox 0 2 0 2)) square (Some (mk_bbox 0 2 0 2)) = Inr True
   \<and> polyInPoly square (Some (mk_bbox 0 2 0 2)) notched (Some (mk_bbox 0 2 0 2)) = Inr True"
  by (simp add: geometry_eval square_def notched_def)

text \<open>
  C8, amended. Containment as \<open>polyInPoly\<close> computes it is anti-symmetric on
  polygons whose bounding boxes differ: two polygons reported as enclosing each other
  have equal bounding boxes.
\<close>

theorem polyInPoly_antisym_bbox:
  "bA \<noteq> bB \<Longrightarrow>
     \<not> (polyInPoly A (Some bA) B (Some bB) = Inr True \<and> polyInPoly B (Some bB) A (Some bA) = Inr True)"
proof
  assume ne: "bA \<noteq> bB"
    and both: "polyInPoly A (Some bA) B (Some bB) = Inr True \<and> polyInPoly B (Some bB) A (Some bA) = Inr True"
  have "bboxInBBox bA bB" "bboxInBBox bB bA"
    using both by (auto simp: polyInPoly_def polyInPoly_run_def split: if_splits)
  then have "bA = bB" by (auto simp: bboxInBBox_iff)
  with ne show False by simp
qed

theorem polyInPoly_antisym_bbox_witness:
  "mk_bbox 1 1 1 1 \<noteq> mk_bbox 0 2 0 2
   \<and> polyInPoly [(1, 1)] (Some (mk_bbox 1 1 1 1)) square (Some (mk_bbox 0 2 0 2)) = Inr True
   \<and> polyInPoly square (Some (mk_bbox 0 2 0 2)) [(1, 1)] (Some (mk_bbox 1 1 1 1)) \<noteq> Inr True"
proof -
  have ne: "mk_bbox 1 1 1 1 \<noteq> mk_bbox 0 2 0 2" by (simp add: mk_bbox_def)
  have "polyInPoly [(1, 1)] (Some (mk_bbox 1 1 1 1)) square (Some (mk_bbox 0 2 0 2)) = Inr True"
    by (simp add: geometry_eval square_def)
  with ne polyInPoly_antisym_bbox [OF ne, of "[(1, 1)]" square] show ?thesis by simp
qed

section \<open>Points on the boundary\<close>

lemma vertex_inside:
  assumes "p \<in> set poly" and "bb = None \<or> (\<exists>b. bb = Some b \<and> pointInBBox p b)"
  shows "pointInPoly (Some p) (Some poly) bb = Inr True"
  using assms by (auto simp: pointInPoly_def)

lemma edge_loop_hit:
  "i \<in> set is \<Longrightarrow> i \<noteq> 0 \<Longrightarrow> on_horizontal p (poly ! (i - 1)) (poly ! i) \<Longrightarrow> edge_loop p poly p1 p2 is"
proof (induction "is" arbitrary: p1 p2)
  case Nil
  then show ?case by simp
next
  case (Cons j js)
  show ?case
  proof (cases "j = i")
    case True
    with Cons.prems show ?thesis by (simp add: Let_def)
  next
    case False
    with Cons.prems have "i \<in> set js" by simp
    from Cons.IH [OF this Cons.prems(2,3)] show ?thesis by (simp add: Let_def)
  qed
qed

text \<open>
  A point on a horizontal edge between two consecutive vertices of the list is
  inside: the first loop of \<open>pointInPoly\<close> finds the edge.
\<close>

lemma horizontal_edge_inside:
  assumes "Suc i < length poly" and "on_horizontal p (poly ! i) (poly ! Suc i)"
  shows "pointInPoly (Some p) (Some poly) None = Inr True"
proof -
  have "edge_loop p poly (poly ! 0) (poly ! 1) [0 ..< length poly]"
    using assms edge_loop_hit [of "Suc i" "[0 ..< length poly]" p poly] by simp
  with assms show ?thesis by (auto simp: pointInPoly_def)
qed

text \<open>
  C6. The first loop of \<open>pointInPoly\<close> never looks at the edge from the last vertex
  back to the first, which the ray casting loop does treat as an edge. On the open
  square \<open>(0,0), (0,2), (2,2), (2,0)\<close> that edge is horizontal, from \<open>(2,0)\<close> to
  \<open>(0,0)\<close>; the point \<open>(1,0)\<close> lies on it strictly between the two x-coordinates
  and is classified as outside.
\<close>

theorem pointInPoly_closing_edge:
  "on_horizontal (1, 0) (last open_square) (hd open_square)
   \<and> pointInPoly (Some (1, 0)) (Some open_square) None = Inr False
   \<and> pointInPoly (Some (1, 0)) (Some open_square) (Some (mk_bbox 0 2 0 2)) = Inr False"
  by (simp add: geometry_eval open_square_def)

section \<open>Extrusion values: precedence and the negative flag\<close>


lemma id_g_a5mm: "findall False RE_AUTO_HEIGHT_ID ''g_a5mm'' = [''a5'']"
  by code_simp

lemma id_p_7mm: "findall False RE_AUTO_HEIGHT_ID ''p_7mm'' = [''7'']"
  by code_simp

text \<open>The three examples of the comment of lines 107-108 all give 56.7 or 57.7.\<close>

lemma id_comment_examples:
  "findall False RE_AUTO_HEIGHT_ID ''path1234_56_7_mm'' = [''56_7'']"
  "findall False RE_AUTO_HEIGHT_ID ''pat1234____57.7mm'' = [''57.7'']"
  "findall False RE_AUTO_HEIGHT_ID ''path1234_57.7__mm'' = [''57.7'']"
  by code_simp+


lemmas node_eval = own_values_def merge_id_def DESC_TAGS_def merge_desc_def find_child_def
  svg_elem_def desc_elem_def get_attr_def strip_anti_def addNS_def nss_def is_group_def

lemma merge_id_neg: "ex_neg (merge_id ext node) = ex_neg ext"
  by (simp add: merge_id_def Let_def)







lemma omev_unfold:
  "object_merge_extrusion_values ext node anc =
     (case inherited ext anc of
        Inl e \<Rightarrow> Inl e
      | Inr inh \<Rightarrow> (case own_values inh node of Inl e \<Rightarrow> Inl e | Inr pre \<Rightarrow> strip_anti pre))"
  by (cases anc) (simp_all add: inherited_def)

lemma strip_anti_Inr:
  "strip_anti pre = Inr ext' \<Longrightarrow>
     ex_height pre \<noteq> [] \<and>
     ex_neg ext' = (ex_neg pre \<or> is_anti (ex_height pre)) \<and>
     ex_height ext' = (if is_anti (ex_height pre) then tl (ex_height pre) else ex_height pre) \<and>
     ex_raise ext' = ex_raise pre \<and> ex_scale ext' = ex_scale pre"
  by (auto simp: strip_anti_def is_anti_def split: list.splits if_splits)

lemma merge_desc_neg: "merge_desc node t ext = Inr ext' \<Longrightarrow> ex_neg ext' = ex_neg ext"
  by (auto simp: merge_desc_def Let_def split: option.splits if_splits)

lemma merge_descs_neg: "merge_descs node ts ext = Inr ext' \<Longrightarrow> ex_neg ext' = ex_neg ext"
proof (induction ts arbitrary: ext)
  case Nil
  then show ?case by simp
next
  case (Cons t ts)
  then show ?case by (auto split: sum.splits dest: merge_desc_neg)
qed

lemma own_values_neg: "own_values ext node = Inr pre \<Longrightarrow> ex_neg pre = ex_neg ext"
  using merge_descs_neg [of node DESC_TAGS "merge_id ext node" pre]
  by (simp add: own_values_def merge_id_neg)






text \<open>
  C7, as the claim states it, fails: the prefix test of lines 703-705 runs at the end
  of every level of the walk, and nothing resets the flag. Under a group \<open>g_a5mm\<close>
  the element \<open>p_7mm\<close> ends with the height \<open>7\<close> and the negative flag, although
  the height the element resolves, \<open>7\<close>, has no prefix.
\<close>

theorem neg_flag_counterexample:
  "object_merge_extrusion_values extrusion0 elem_p7 [group_a5]
     = Inr \<lparr>ex_height = ''7'', ex_raise = ''0'', ex_scale = ''100.0'', ex_neg = True\<rparr>
   \<and> inherited extrusion0 [group_a5]
     = Inr \<lparr>ex_height = ''5'', ex_raise = ''0'', ex_scale = ''100.0'', ex_neg = True\<rparr>
   \<and> own_values \<lparr>ex_height = ''5'', ex_raise = ''0'', ex_scale = ''100.0'', ex_neg = True\<rparr> elem_p7
     = Inr \<lparr>ex_height = ''7'', ex_raise = ''0'', ex_scale = ''100.0'', ex_neg = True\<rparr>
   \<and> \<not> is_anti ''7''"
  by (simp add: node_eval inherited_def elem_p7_def group_a5_def id_p_7mm id_g_a5mm extrusion0_def is_anti_def)

text \<open>
  C7, amended. When the walk returns, the negative flag is true exactly when the
  height resolved at the element's own level (after its identifier and its
  descriptions) begins with \<open>a\<close> or \<open>A\<close>, or the flag was already true in the values
  handed down by the walk through the enclosing groups; the prefix is stripped where
  it is found.
\<close>

theorem neg_flag_levels:
  assumes "object_merge_extrusion_values ext node anc = Inr ext'"
  shows "\<exists>inh pre. inherited ext anc = Inr inh \<and> own_values inh node = Inr pre \<and>
           ex_neg ext' = (ex_neg inh \<or> is_anti (ex_height pre)) \<and>
           ex_height ext' = (if is_anti (ex_height pre) then tl (ex_height pre) else ex_height pre)"
proof -
  from assms obtain inh where inh: "inherited ext anc = Inr inh"
    by (auto simp: omev_unfold [of ext node anc] split: sum.splits)
  with assms obtain pre where pre: "own_values inh node = Inr pre" and st: "strip_anti pre = Inr ext'"
    by (auto simp: omev_unfold [of ext node anc] split: sum.splits)
  from strip_anti_Inr [OF st] own_values_neg [OF pre] inh pre show ?thesis by auto
qed

theorem neg_flag_levels_witness:
  "object_merge_extrusion_values extrusion0 elem_p7 [group_a5]
     = Inr \<lparr>ex_height = ''7'', ex_raise = ''0'', ex_scale = ''100.0'', ex_neg = True\<rparr>
   \<and> (\<exists>inh pre. inherited extrusion0 [group_a5] = Inr inh \<and> own_values inh elem_p7 = Inr pre \<and>
         True = (ex_neg inh \<or> is_anti (ex_height pre)) \<and>
         ''7'' = (if is_anti (ex_height pre) then tl (ex_height pre) else ex_height pre))"
proof -
  have run: "object_merge_extrusion_values extrusion0 elem_p7 [group_a5]
     = Inr \<lparr>ex_height = ''7'', ex_raise = ''0'', ex_scale = ''100.0'', ex_neg = True\<rparr>"
    by (simp add: node_eval elem_p7_def group_a5_def id_p_7mm id_g_a5mm extrusion0_def)
  from neg_flag_levels [OF run] run show ?thesis by simp
qed

section \<open>Flattening: every segment left is within the tolerance\<close>












section \<open>The traversal: invisible nodes and unsupported elements\<close>

















lemmas tag_eval = is_tag_def svg_elem_def addNS_def nss_def get_attr_def visibility_of_def invisible_def






lemma dispatch_flow_root:
  "dispatch lib doc w pos flow_root m v = Errormsg [object_warning (Tag (addNS ''flowRoot'' ''svg''))] []"
  by (simp add: dispatch_def flow_root_def tag_eval ignored_first_def ignored_last_def)

lemma dispatch_text:
  "dispatch lib doc w pos text_elem m v = Errormsg (text_warnings [''A'']) []"
  by (simp add: dispatch_def text_elem_def tag_eval ignored_first_def subtree_texts_def)

lemma dispatch_image:
  "dispatch lib doc w pos image_elem m v =
     (if ''image'' \<notin> set w then Errormsg [image_warning] [''image''] else Pass)"
  by (simp add: dispatch_def image_elem_def tag_eval ignored_first_def)

lemma examples_visible:
  "\<not> invisible flow_root ''visible''" "\<not> invisible text_elem ''visible''" "\<not> invisible image_elem ''visible''"
  by (simp_all add: flow_root_def text_elem_def image_elem_def tag_eval)

text \<open>
  An element of a kind the program cannot draw never ends the traversal: the loop
  goes on with the next node, with the messages added to what \<open>inkex.errormsg\<close> was
  given and nothing else of the state changed but \<open>self.warnings\<close>.
\<close>

lemma unsupported_goes_on:
  assumes "\<not> invisible node pv"
    and "dispatch lib doc (st_warnings s) pos node
           (lib_composeTransform lib mat (lib_parseTransform lib (map_of (xattrs node) ''transform'')))
           (visibility_of node pv) = Errormsg ms ks"
  shows "recursivelyTraverseSvg lib flat doc (Suc depth) ((pos, node) # rest) mat pv s
           = recursivelyTraverseSvg lib flat doc (Suc depth) rest mat pv
               (s\<lparr>st_errormsg := st_errormsg s @ ms, st_warnings := st_warnings s @ ks\<rparr>)"
  using assms by simp

text \<open>
  C9. Only the warning about images is kept to one: \<open>self.warnings\<close> is looked at in
  the branch for images alone. Two elements of an unknown kind give the same message
  twice, two text elements give their two messages twice; two images give one
  message.
\<close>

theorem unsupported_warned_again:
  "recursivelyTraverseSvg lib flat doc (Suc depth) [(p1, flow_root), (p2, flow_root)] mat ''visible''
       (init_state dpi)
     = Inr ((init_state dpi)\<lparr>st_errormsg :=
          [object_warning (Tag (addNS ''flowRoot'' ''svg'')), object_warning (Tag (addNS ''flowRoot'' ''svg''))]\<rparr>)
   \<and> recursivelyTraverseSvg lib flat doc (Suc depth) [(p1, text_elem), (p2, text_elem)] mat ''visible''
       (init_state dpi)
     = Inr ((init_state dpi)\<lparr>st_errormsg := text_warnings [''A''] @ text_warnings [''A'']\<rparr>)
   \<and> recursivelyTraverseSvg lib flat doc (Suc depth) [(p1, image_elem), (p2, image_elem)] mat ''visible''
       (init_state dpi)
     = Inr ((init_state dpi)\<lparr>st_errormsg := [image_warning], st_warnings := [''image'']\<rparr>)"
  by (simp add: examples_visible dispatch_flow_root dispatch_text dispatch_image)
     (simp add: init_state_def)

section \<open>The module of an element: which subpaths are written\<close>

lemma nested_loop_closed:
  "nested_loop path cx cy js pp pths count =
     (pp @ map (shift cx cy) (concat (map (\<lambda>j. fst (path ! j)) js)),
      pths @ index_runs count (map (\<lambda>j. length (fst (path ! j))) js))"
  by (induction js arbitrary: pp pths count) simp_all

lemma points_loop_closed:
  "points_loop ident cx cy path contains contained_by is prefix =
     concat (map (declarations ident cx cy path contains)
       (enumerate prefix (filter (\<lambda>i. contained_by ! i = []) is)))"
  by (induction "is" arbitrary: prefix)
    (simp_all add: declarations_def folded_def nested_loop_closed Let_def)

lemma blocks_loop_closed:
  "blocks_loop ident filled force contains contained_by is prefix =
     map (block ident filled force contains)
       (enumerate prefix (filter (\<lambda>i. contained_by ! i = []) is))"
  by (induction "is" arbitrary: prefix) (simp_all add: block_def Let_def)

lemma write_module_text:
  assumes "write_module opts doc key path contains contained_by ident filled w s1 = Inr s'"
  shows "st_f s' = st_f s1 @ module_text ident (st_cx s1) (st_cy s1) filled (opt_force_line opts)
                              path contains contained_by"
  using assms
  by (auto simp: write_module_def bind_err_def Let_def module_text_def top_level_def
      points_loop_closed blocks_loop_closed split: sum.splits if_splits)

lemma write_module_frame:
  assumes "write_module opts doc key path contains contained_by ident filled w s1 = Inr s'"
  shows "st_paths s' = st_paths s1 \<and> st_cx s' = st_cx s1 \<and> st_cy s' = st_cy s1 \<and>
         st_xmin s' = st_xmin s1 \<and> st_xmax s' = st_xmax s1 \<and>
         st_ymin s' = st_ymin s1 \<and> st_ymax s' = st_ymax s1 \<and> st_dpi s' = st_dpi s1"
  using assms
  by (auto simp: write_module_def bind_err_def Let_def split: sum.splits if_splits)

lemma convertPath_cases:
  assumes path: "map_of (st_paths s) key = Some path"
    and run: "convertPath lib opts doc key s = Inr s'"
  shows "s' = s \<or>
         (\<exists>msg. s' = (if get_attr (snd key) ''id'' [] = [] then s\<lparr>st_pathid := st_pathid s + 1\<rparr> else s)
                        \<lparr>st_errormsg := st_errormsg s @ [msg]\<rparr>) \<or>
         (\<exists>contains contained_by ident filled w.
            containment path = Inr (contains, contained_by) \<and>
            write_module opts doc key path contains contained_by ident filled w
              (if get_attr (snd key) ''id'' [] = [] then s\<lparr>st_pathid := st_pathid s + 1\<rparr> else s) = Inr s')"
proof (cases "path = []")
  case True
  with run path show ?thesis by (simp add: convertPath_def)
next
  case ne: False
  from run path ne obtain contains contained_by where
    cont: "containment path = Inr (contains, contained_by)"
    by (cases "containment path") (auto simp: convertPath_def bind_err_def)
  show ?thesis
  proof (cases "get_attr (snd key) ''id'' [] = []")
    case True
    from run path ne True cont show ?thesis
      by (simp add: convertPath_def bind_err_def Let_def split: sum.splits option.splits if_splits)
        blast+
  next
    case False
    from run path ne False cont show ?thesis
      by (simp add: convertPath_def bind_err_def Let_def split: sum.splits option.splits if_splits)
        blast+
  qed
qed

lemma convertPath_frame:
  assumes "convertPath lib opts doc key s = Inr s'"
  shows "st_paths s' = st_paths s \<and> st_cx s' = st_cx s \<and> st_cy s' = st_cy s \<and>
         st_xmin s' = st_xmin s \<and> st_xmax s' = st_xmax s \<and>
         st_ymin s' = st_ymin s \<and> st_ymax s' = st_ymax s \<and> st_dpi s' = st_dpi s"
proof (cases "map_of (st_paths s) key")
  case None
  with assms show ?thesis by (simp add: convertPath_def)
next
  case (Some path)
  from convertPath_cases [OF Some assms] show ?thesis
    by (elim disjE exE conjE) (auto dest!: write_module_frame)
qed

text \<open>The two lists that the loops of lines 714-728 fill stay two views of one relation.\<close>

lemma dualD:
  assumes d: "dual n (c, cb)"
  shows "length c = n" "length cb = n"
    "\<And>a b. a < n \<Longrightarrow> b < n \<Longrightarrow> (b \<in> set (c ! a)) = (a \<in> set (cb ! b))"
    "\<And>a b. a < n \<Longrightarrow> b \<in> set (c ! a) \<Longrightarrow> b < n"
    "\<And>a b. b < n \<Longrightarrow> a \<in> set (cb ! b) \<Longrightarrow> a < n"
  using d unfolding dual_def fst_conv snd_conv by blast+

lemma dualI:
  assumes "length c = n" "length cb = n"
    "\<And>a b. a < n \<Longrightarrow> b < n \<Longrightarrow> (b \<in> set (c ! a)) = (a \<in> set (cb ! b))"
    "\<And>a b. a < n \<Longrightarrow> b \<in> set (c ! a) \<Longrightarrow> b < n"
    "\<And>a b. b < n \<Longrightarrow> a \<in> set (cb ! b) \<Longrightarrow> a < n"
  shows "dual n (c, cb)"
  unfolding dual_def fst_conv snd_conv using assms by blast

lemma dual_update:
  assumes d: "dual n (c, cb)" and i: "i < n" and j: "j < n"
  shows "dual n (c[i := c ! i @ [j]], cb[j := cb ! j @ [i]])"
proof (rule dualI)
  note lc = dualD(1) [OF d] and lcb = dualD(2) [OF d] and rel = dualD(3) [OF d]
    and bc = dualD(4) [OF d] and bcb = dualD(5) [OF d]
  have c': "set (c[i := c ! i @ [j]] ! a) = (if a = i then insert j (set (c ! i)) else set (c ! a))"
    if "a < n" for a
    using lc that by (simp add: nth_list_update)
  have cb': "set (cb[j := cb ! j @ [i]] ! b) = (if b = j then insert i (set (cb ! j)) else set (cb ! b))"
    if "b < n" for b
    using lcb that by (simp add: nth_list_update)
  show "length (c[i := c ! i @ [j]]) = n" using lc by simp
  show "length (cb[j := cb ! j @ [i]]) = n" using lcb by simp
  show "(b \<in> set (c[i := c ! i @ [j]] ! a)) = (a \<in> set (cb[j := cb ! j @ [i]] ! b))"
    if "a < n" "b < n" for a b
    unfolding c' [OF that(1)] cb' [OF that(2)]
    using rel [OF that] rel [OF i \<open>b < n\<close>] rel [OF \<open>a < n\<close> j] by (cases "a = i"; cases "b = j"; simp)
  show "b < n" if "a < n" "b \<in> set (c[i := c ! i @ [j]] ! a)" for a b
    using that(2) bc [of a b] bc [of i b] j i that(1) unfolding c' [OF that(1)]
    by (cases "a = i"; cases "b = j"; simp)
  show "a < n" if "b < n" "a \<in> set (cb[j := cb ! j @ [i]] ! b)" for a b
    using that(2) bcb [of b a] bcb [of j a] i j that(1) unfolding cb' [OF that(1)]
    by (cases "b = j"; cases "a = i"; simp)
qed

lemma contain_row_dual:
  "dual n cc \<Longrightarrow> i < n \<Longrightarrow> \<forall>j \<in> set js. j < n \<Longrightarrow> contain_row path i js cc = Inr cc' \<Longrightarrow> dual n cc'"
proof (induction js arbitrary: cc)
  case Nil
  then show ?case by simp
next
  case (Cons j js)
  obtain c cb where cc: "cc = (c, cb)" by (cases cc)
  from Cons.prems have j: "j < n" and js: "\<forall>j \<in> set js. j < n" by simp_all
  from Cons.prems(1) cc have d: "dual n (c, cb)" by simp
  note d1 = dual_update [OF d \<open>i < n\<close> j]
  note d2 = dual_update [OF d j \<open>i < n\<close>]
  from Cons.prems(4) cc consider
      "contain_row path i js (c[i := c ! i @ [j]], cb[j := cb ! j @ [i]]) = Inr cc'"
    | "contain_row path i js (c[j := c ! j @ [i]], cb[i := cb ! i @ [j]]) = Inr cc'"
    | "contain_row path i js (c, cb) = Inr cc'"
    by (auto split: sum.splits bool.splits if_splits)
  then show ?case
  proof cases
    case 1
    from Cons.IH [OF d1 \<open>i < n\<close> js 1] show ?thesis .
  next
    case 2
    from Cons.IH [OF d2 \<open>i < n\<close> js 2] show ?thesis .
  next
    case 3
    from Cons.IH [OF d \<open>i < n\<close> js 3] show ?thesis .
  qed
qed


lemma contain_rows_dual:
  "dual (length path) cc \<Longrightarrow> \<forall>i \<in> set is. i < length path \<Longrightarrow>
     contain_rows path is cc = Inr cc' \<Longrightarrow> dual (length path) cc'"
proof (induction "is" arbitrary: cc)
  case Nil
  then show ?case by simp
next
  case (Cons i "is")
  from Cons.prems(3) obtain cc1 where
    row: "contain_row path i [i + 1 ..< length path] cc = Inr cc1"
    and rest: "contain_rows path is cc1 = Inr cc'"
    by (auto split: sum.splits)
  from Cons.prems(2) have i: "i < length path" and "is": "\<forall>i \<in> set is. i < length path"
    by simp_all
  have "dual (length path) cc1"
    by (rule contain_row_dual [OF Cons.prems(1) i _ row]) simp
  from Cons.IH [OF this "is" rest] show ?case .
qed


lemma containment_dual:
  assumes "containment path = Inr cc"
  shows "dual (length path) cc"
proof -
  have "dual (length path) (replicate (length path) [], replicate (length path) [])"
    by (rule dualI) simp_all
  from contain_rows_dual [OF this _ assms [unfolded containment_def]] show ?thesis by simp
qed


lemma skipped_iff_contained:
  assumes "dual n (contains, contained_by)" "j < n"
  shows "(contained_by ! j \<noteq> []) = (\<exists>i<n. j \<in> set (contains ! i))"
proof
  assume "contained_by ! j \<noteq> []"
  then obtain i where "i \<in> set (contained_by ! j)" by (cases "contained_by ! j") auto
  with dualD(3) [OF assms(1), of i j] dualD(5) [OF assms(1), of j i] assms(2)
  show "\<exists>i<n. j \<in> set (contains ! i)" by auto
next
  assume "\<exists>i<n. j \<in> set (contains ! i)"
  then obtain i where "i < n" "j \<in> set (contains ! i)" by blast
  with dualD(3) [OF assms(1), of i j] assms(2) show "contained_by ! j \<noteq> []" by auto
qed

end
